theory Spec2Isabelle
  imports Main "HOL-Library.Word" "HOL-Library.Signed_Division"
begin

section \<open>The full-node service of \<^verbatim>\<open>bhe/backend.go\<close>\<close>

text \<open>
  A shallow embedding of the file \<^verbatim>\<open>bhe/backend.go\<close>: the struct \<^verbatim>\<open>BHEereum\<close>, its
  constructor \<^verbatim>\<open>New\<close>, and its methods. Every collaborator the file only calls (store,
  chain, pool, protocol manager, miner, engines, account manager) is kept as the little
  state the file reads or writes, plus a trace of the calls made on it, in call order.
\<close>

subsection \<open>Basic types\<close>

text \<open>\<^verbatim>\<open>common.Address\<close> is a 20-byte array; \<^verbatim>\<open>common.Address{}\<close> is the all-zero value.\<close>

type_synonym address = "160 word"

text \<open>
  Go's \<^verbatim>\<open>int\<close> is modelled as a mathematical integer with the wrap-around of a 64-bit
  platform written out: \<open>goInt\<close> is what an arithmetic result becomes when it is stored.
  Division of Go integers truncates towards zero (\<open>sdiv\<close>).
\<close>

definition goInt :: "int \<Rightarrow> int" where
  "goInt k = signed_take_bit 63 k"

definition isGoInt :: "int \<Rightarrow> bool" where
  "isGoInt k = (- (2 ^ 63) \<le> k \<and> k < 2 ^ 63)"

text \<open>Every failure the file returns, one constructor per error site.\<close>

datatype error =
    ErrLightSync
  | ErrInvalidSyncMode "32 word"
  | ErrOpenDatabase string
  | ErrGenesis string
  | ErrDatabaseVersion "64 word" "64 word"
  | ErrNewBlockChain string
  | ErrNewProtocolManager string
  | ErrSetupDiscovery string
  | ErrBHEerbaseUnspecified
  | ErrBHEerbaseMissing error
  | ErrSignerMissing "string option"
  | ErrInvalidPeerConfig int int

text \<open>A Go call either returns or panics.\<close>

datatype panic = CloseOfClosedChannel

datatype 'a outcome = Returned 'a | Panicked panic

subsection \<open>RPC descriptors\<close>

datatype service_ref =
    PublicBHEereumAPI
  | PublicMinerAPI
  | PublicDownloaderAPI
  | PrivateMinerAPI
  | PublicFilterAPI
  | PrivateAdminAPI
  | PublicDebugAPI
  | PrivateDebugAPI
  | NetRPCService
  | ExternalService string

record api =
  Namespace :: string
  Version :: string
  Service :: service_ref
  Public :: bool

subsection \<open>Collaborators\<close>

record header =
  Number :: "64 word"
  Coinbase :: address
  Extra :: "8 word list"

record block =
  Header :: header

text \<open>
  \<^verbatim>\<open>consensus.Engine\<close>: the dynamic type of the value (the file asserts
  \<^verbatim>\<open>*clique.Clique\<close>), whether the type has a \<^verbatim>\<open>SetThreads\<close> method (the local interface
  \<^verbatim>\<open>threaded\<close>), and the state the file's calls reach: the thread count, the signer bound
  by \<^verbatim>\<open>Authorize\<close>, the result of \<^verbatim>\<open>Author\<close> and the list returned by \<^verbatim>\<open>APIs\<close>.
\<close>

datatype engine_type = CliqueT | BHEashT

record engine =
  e_type :: engine_type
  e_threaded :: bool
  e_threads :: int
  e_signer :: "address option"
  e_Author :: "header \<Rightarrow> string + address"
  e_APIs :: "api list"

record wallet =
  w_URL :: string
  w_Accounts :: "address list"

text \<open>
  \<^verbatim>\<open>accounts.Manager\<close>: \<^verbatim>\<open>Wallets()\<close> and \<^verbatim>\<open>Find(account)\<close>, the latter returning a wallet
  (possibly nil) and an error (possibly nil).
\<close>

record account_manager =
  am_Wallets :: "wallet list"
  am_Find :: "address \<Rightarrow> wallet option \<times> string option"

record les_server =
  ls_APIs :: "api list"

record tx_pool =
  tp_gasPrice :: "int option"

record miner =
  m_mining :: bool
  m_launched :: "address list"

record protocol_manager =
  acceptTxs :: "32 word"

text \<open>
  The persistent store: the schema-version marker read by \<^verbatim>\<open>rawdb.ReadDatabaseVersion\<close>
  (nil when absent) and everything else it holds, as the list of writes made so far.
\<close>

datatype db_write = WriteChainConfigW "256 word"

record database =
  db_version :: "64 word option"
  db_data :: "db_write list"

text \<open>Calls on collaborators, recorded in the order the file makes them.\<close>

datatype call =
    OpenDatabaseWithFreezer
  | SetupGenesisBlock
  | CreateEngine
  | NewBloomIndexer
  | ReadDatabaseVersion
  | WriteDatabaseVersion "64 word"
  | NewBlockChain
  | SBHEead "64 word"
  | WriteChainConfig
  | BloomIndexer_Start
  | ResolvePath string
  | NewTxPool
  | NewProtocolManager "nat option" int
  | Miner_New
  | Miner_SetExtra
  | NewOracle "int option"
  | SetupDiscovery
  | AccountManager_Wallets
  | Wallet_Accounts
  | AccountManager_Find address
  | StartBHEEntryUpdate
  | StartBloomHandlers "64 word"
  | NewPublicNetAPI
  | ProtocolManager_Start int
  | LesServer_Start
  | LesServer_SetBloomBitsIndexer
  | ProtocolManager_Stop
  | LesServer_Stop
  | BloomIndexer_Close "string option"
  | Close_closeBloomHandler
  | TxPool_Stop
  | Miner_Stop
  | BlockChain_Stop
  | Engine_Close "string option"
  | ChainDb_Close "string option"
  | EventMux_Stop

subsection \<open>Configuration\<close>

text \<open>
  The fields of \<^verbatim>\<open>Config\<close> the file reads, nested fields flattened
  (\<^verbatim>\<open>config.Miner.GasPrice\<close> is \<open>Miner_GasPrice\<close>). A \<^verbatim>\<open>*big.Int\<close> is an unbounded
  integer or nil; the cache budgets and peer counts are Go \<^verbatim>\<open>int\<close>s.
\<close>

datatype pow_mode = ModeNormal | ModeShared | ModeTest | ModeFake | ModeFullFake

record config =
  SyncMode :: "32 word"
  Miner_GasPrice :: "int option"
  Miner_BHEerbase :: address
  Miner_Noverify :: bool
  NoPruning :: bool
  TrieCleanCache :: int
  TrieDirtyCache :: int
  SnapshotCache :: int
  SkipBcVersionCheck :: bool
  NetworkId :: "64 word"
  PowMode :: pow_mode
  TxPool_Journal :: string
  TxPool_Locals :: "address list"
  Checkpoint :: "nat option"
  GPO_Default :: "int option"
  LightServ :: int
  LightPeers :: int

subsection \<open>The service\<close>

text \<open>
  The struct \<^verbatim>\<open>BHEereum\<close>. The field \<^verbatim>\<open>BHEerbase\<close> is \<open>s_BHEerbase\<close> here, the method of the
  same name keeps the name. The channel \<^verbatim>\<open>closeBloomHandler\<close> is its one bit of state:
  closed or not. \<open>calls\<close> is the trace of collaborator calls made through the service.
\<close>

record service =
  s_config :: config
  txPool :: tx_pool
  protocolManager :: protocol_manager
  lesServer :: "les_server option"
  chainDb :: database
  s_engine :: engine
  accountManager :: account_manager
  closeBloomHandler_closed :: bool
  s_miner :: miner
  gasPrice :: "int option"
  s_BHEerbase :: address
  networkID :: "64 word"
  calls :: "call list"

subsection \<open>\<^verbatim>\<open>AddLesServer\<close> (lines 72-75)\<close>

definition AddLesServer :: "service \<Rightarrow> les_server \<Rightarrow> service" where
  "AddLesServer s ls =
     s\<lparr>lesServer := Some ls, calls := calls s @ [LesServer_SetBloomBitsIndexer]\<rparr>"

subsection \<open>\<^verbatim>\<open>isLocalBlock\<close> and \<^verbatim>\<open>shouldPreserve\<close> (lines 357-404)\<close>

text \<open>The loop over \<^verbatim>\<open>s.config.TxPool.Locals\<close>: true at the first account equal to the author.\<close>

fun isLocalAccount :: "address list \<Rightarrow> address \<Rightarrow> bool" where
  "isLocalAccount [] author = False"
| "isLocalAccount (account # accounts) author =
     (if account = author then True else isLocalAccount accounts author)"

definition isLocalBlock :: "service \<Rightarrow> block \<Rightarrow> bool" where
  "isLocalBlock s b =
     (case e_Author (s_engine s) (Header b) of
        Inl err \<Rightarrow> False
      | Inr author \<Rightarrow>
          (if author = s_BHEerbase s then True
           else isLocalAccount (TxPool_Locals (s_config s)) author))"

definition shouldPreserve :: "service \<Rightarrow> block \<Rightarrow> bool" where
  "shouldPreserve s b =
     (if e_type (s_engine s) = CliqueT then False else isLocalBlock s b)"

subsection \<open>\<^verbatim>\<open>BHEerbase\<close> (lines 329-350)\<close>

text \<open>
  Returns the address or the error, and the service after the call: the cached field and
  the trace, which gains \<open>AccountManager_Wallets\<close> (and \<open>Wallet_Accounts\<close>) exactly when
  the account manager is consulted.
\<close>

definition BHEerbase :: "service \<Rightarrow> (error + address) \<times> service" where
  "BHEerbase s =
     (if s_BHEerbase s \<noteq> 0 then (Inr (s_BHEerbase s), s)
      else
        (let s1 = s\<lparr>calls := calls s @ [AccountManager_Wallets]\<rparr> in
         case am_Wallets (accountManager s1) of
           [] \<Rightarrow> (Inl ErrBHEerbaseUnspecified, s1)
         | w # ws \<Rightarrow>
             (let s2 = s1\<lparr>calls := calls s1 @ [Wallet_Accounts]\<rparr> in
              case w_Accounts w of
                [] \<Rightarrow> (Inl ErrBHEerbaseUnspecified, s2)
              | a # as \<Rightarrow> (Inr a, s2\<lparr>s_BHEerbase := a\<rparr>))))"

subsection \<open>\<^verbatim>\<open>StartMining\<close>, \<^verbatim>\<open>StopMining\<close>, \<^verbatim>\<open>IsMining\<close> (lines 418-475)\<close>

definition IsMining :: "service \<Rightarrow> bool" where
  "IsMining s = m_mining (s_miner s)"

text \<open>The first block of \<^verbatim>\<open>StartMining\<close> (lines 420-429): the thread count, 0 mapped to -1.\<close>

definition setEngineThreads :: "service \<Rightarrow> int \<Rightarrow> service" where
  "setEngineThreads s threads =
     (if e_threaded (s_engine s)
      then s\<lparr>s_engine := (s_engine s)\<lparr>e_threads := (if threads = 0 then - 1 else threads)\<rparr>\<rparr>
      else s)"

text \<open>
  \<^verbatim>\<open>go s.miner.Start(eb)\<close> only launches the loop: the launch is recorded in \<open>m_launched\<close>,
  and the miner's own flag is left to the launched loop.
\<close>

definition launchMiner :: "service \<Rightarrow> address \<Rightarrow> service" where
  "launchMiner s eb =
     s\<lparr>protocolManager := (protocolManager s)\<lparr>acceptTxs := 1\<rparr>,
       s_miner := (s_miner s)\<lparr>m_launched := m_launched (s_miner s) @ [eb]\<rparr>\<rparr>"

definition StartMining :: "service \<Rightarrow> int \<Rightarrow> error option \<times> service" where
  "StartMining s threads =
     (let s1 = setEngineThreads s threads in
      if \<not> IsMining s1 then
        (let s2 = s1\<lparr>txPool := (txPool s1)\<lparr>tp_gasPrice := gasPrice s1\<rparr>\<rparr> in
         case BHEerbase s2 of
           (Inl err, s3) \<Rightarrow> (Some (ErrBHEerbaseMissing err), s3)
         | (Inr eb, s3) \<Rightarrow>
             (if e_type (s_engine s3) = CliqueT then
                (let s4 = s3\<lparr>calls := calls s3 @ [AccountManager_Find eb]\<rparr> in
                 case am_Find (accountManager s4) eb of
                   (None, err) \<Rightarrow> (Some (ErrSignerMissing err), s4)
                 | (Some w, Some err) \<Rightarrow> (Some (ErrSignerMissing (Some err)), s4)
                 | (Some w, None) \<Rightarrow>
                     (None, launchMiner (s4\<lparr>s_engine := (s_engine s4)\<lparr>e_signer := Some eb\<rparr>\<rparr>) eb))
              else (None, launchMiner s3 eb)))
      else (None, s1))"

definition StopMining :: "service \<Rightarrow> service" where
  "StopMining s =
     (let s1 = (if e_threaded (s_engine s)
                then s\<lparr>s_engine := (s_engine s)\<lparr>e_threads := - 1\<rparr>\<rparr> else s)
      in s1\<lparr>s_miner := (s_miner s1)\<lparr>m_mining := False\<rparr>, calls := calls s1 @ [Miner_Stop]\<rparr>)"

subsection \<open>Package-level constants and constructors\<close>

text \<open>
  What the file takes from other packages and does not define itself, so all of it is a
  parameter: \<^verbatim>\<open>downloader.LightSync\<close> and \<^verbatim>\<open>SyncMode.IsValid\<close>,
  \<^verbatim>\<open>DefaultConfig.Miner.GasPrice\<close>, \<^verbatim>\<open>core.BlockChainVersion\<close>, \<^verbatim>\<open>params.BloomBitsBlocks\<close>,
  the table \<^verbatim>\<open>params.TrustedCheckpoints\<close>, the engine constructors and \<^verbatim>\<open>BHEapi.GetAPIs\<close>.
\<close>

record pkg =
  LightSync :: "32 word"
  IsValid :: "32 word \<Rightarrow> bool"
  DefaultConfig_Miner_GasPrice :: int
  BlockChainVersion :: "64 word"
  BloomBitsBlocks :: "64 word"
  TrustedCheckpoints :: "256 word \<Rightarrow> nat option"
  clique_New :: engine
  BHEash_NewFaker :: engine
  BHEash_NewTester :: "bool \<Rightarrow> engine"
  BHEash_NewShared :: engine
  BHEash_New :: "bool \<Rightarrow> engine"
  GetAPIs :: "api list"

subsection \<open>\<^verbatim>\<open>APIs\<close> (lines 261-323)\<close>

definition localAPIs :: "api list" where
  "localAPIs =
     [\<lparr>Namespace = ''BHE'', Version = ''1.0'', Service = PublicBHEereumAPI, Public = True\<rparr>,
      \<lparr>Namespace = ''BHE'', Version = ''1.0'', Service = PublicMinerAPI, Public = True\<rparr>,
      \<lparr>Namespace = ''BHE'', Version = ''1.0'', Service = PublicDownloaderAPI, Public = True\<rparr>,
      \<lparr>Namespace = ''miner'', Version = ''1.0'', Service = PrivateMinerAPI, Public = False\<rparr>,
      \<lparr>Namespace = ''BHE'', Version = ''1.0'', Service = PublicFilterAPI, Public = True\<rparr>,
      \<lparr>Namespace = ''admin'', Version = ''1.0'', Service = PrivateAdminAPI, Public = False\<rparr>,
      \<lparr>Namespace = ''debug'', Version = ''1.0'', Service = PublicDebugAPI, Public = True\<rparr>,
      \<lparr>Namespace = ''debug'', Version = ''1.0'', Service = PrivateDebugAPI, Public = False\<rparr>,
      \<lparr>Namespace = ''net'', Version = ''1.0'', Service = NetRPCService, Public = True\<rparr>]"

text \<open>The two identical blocks \<^verbatim>\<open>if s.lesServer != nil { apis = append(apis, ...) }\<close>.\<close>

definition appendLesAPIs :: "service \<Rightarrow> api list \<Rightarrow> api list" where
  "appendLesAPIs s apis =
     (case lesServer s of None \<Rightarrow> apis | Some ls \<Rightarrow> apis @ ls_APIs ls)"

definition APIs :: "pkg \<Rightarrow> service \<Rightarrow> api list" where
  "APIs P s =
     (let apis = GetAPIs P;
          apis = appendLesAPIs s apis;
          apis = apis @ e_APIs (s_engine s);
          apis = appendLesAPIs s apis
      in apis @ localAPIs)"

subsection \<open>\<^verbatim>\<open>Start\<close> and \<^verbatim>\<open>Stop\<close> (lines 508-552)\<close>

record p2p_server =
  MaxPeers :: int

text \<open>Lines 525-530: the networking layer, then the light server if there is one.\<close>

definition startNetworking :: "service \<Rightarrow> int \<Rightarrow> error option \<times> service" where
  "startNetworking s maxPeers =
     (let s1 = s\<lparr>calls := calls s @ [ProtocolManager_Start maxPeers]\<rparr>;
          s2 = (if lesServer s1 \<noteq> None then s1\<lparr>calls := calls s1 @ [LesServer_Start]\<rparr> else s1)
      in (None, s2))"

definition Start :: "pkg \<Rightarrow> service \<Rightarrow> p2p_server \<Rightarrow> error option \<times> service" where
  "Start P s srvr =
     (let s1 = s\<lparr>calls := calls s @
                  [StartBHEEntryUpdate, StartBloomHandlers (BloomBitsBlocks P), NewPublicNetAPI]\<rparr>;
          maxPeers = MaxPeers srvr
      in
      if LightServ (s_config s1) > 0 then
        (if LightPeers (s_config s1) \<ge> MaxPeers srvr
         then (Some (ErrInvalidPeerConfig (LightPeers (s_config s1)) (MaxPeers srvr)), s1)
         else startNetworking s1 (goInt (maxPeers - LightPeers (s_config s1))))
      else startNetworking s1 maxPeers)"

text \<open>
  What the three closing calls whose Go signature returns an error return; \<^verbatim>\<open>Stop\<close>
  drops each of them.
\<close>

record close_results =
  r_bloomIndexer_Close :: "string option"
  r_engine_Close :: "string option"
  r_chainDb_Close :: "string option"

text \<open>
  \<^verbatim>\<open>Stop\<close>. \<^verbatim>\<open>close(s.closeBloomHandler)\<close> panics when the channel is closed already; the
  calls made before the panic stay in the trace. \<^verbatim>\<open>s.miner.Stop()\<close> ends the mining loop,
  so the miner's flag is off afterwards.
\<close>

definition Stop :: "close_results \<Rightarrow> service \<Rightarrow> (error option) outcome \<times> service" where
  "Stop R s =
     (let s1 = s\<lparr>calls := calls s @ [ProtocolManager_Stop]\<rparr>;
          s2 = (if lesServer s1 \<noteq> None then s1\<lparr>calls := calls s1 @ [LesServer_Stop]\<rparr> else s1);
          s3 = s2\<lparr>calls := calls s2 @ [BloomIndexer_Close (r_bloomIndexer_Close R)]\<rparr>
      in
      if closeBloomHandler_closed s3 then (Panicked CloseOfClosedChannel, s3)
      else
        (let s4 = s3\<lparr>closeBloomHandler_closed := True,
                      calls := calls s3 @ [Close_closeBloomHandler]\<rparr>;
             s5 = s4\<lparr>s_miner := (s_miner s4)\<lparr>m_mining := False\<rparr>,
                      calls := calls s4 @
                        [TxPool_Stop, Miner_Stop, BlockChain_Stop,
                         Engine_Close (r_engine_Close R), ChainDb_Close (r_chainDb_Close R),
                         EventMux_Stop]\<rparr>
         in (Returned None, s5)))"

subsection \<open>\<^verbatim>\<open>CreateConsensusEngine\<close> (lines 227-257)\<close>

record chain_config =
  cc_Clique :: bool

text \<open>
  The value each constructor returns is a parameter; its dynamic type is what the Go
  constructor's result type says. The \<^verbatim>\<open>BHEash.Config\<close> literal of the default branch is
  part of what \<open>BHEash_New\<close> stands for.
\<close>

definition CreateConsensusEngine :: "pkg \<Rightarrow> chain_config \<Rightarrow> pow_mode \<Rightarrow> bool \<Rightarrow> engine" where
  "CreateConsensusEngine P chainConfig powMode noverify =
     (if cc_Clique chainConfig then (clique_New P)\<lparr>e_type := CliqueT\<rparr>
      else
        (case powMode of
           ModeFake \<Rightarrow> (BHEash_NewFaker P)\<lparr>e_type := BHEashT\<rparr>
         | ModeTest \<Rightarrow> (BHEash_NewTester P noverify)\<lparr>e_type := BHEashT\<rparr>
         | ModeShared \<Rightarrow> (BHEash_NewShared P)\<lparr>e_type := BHEashT\<rparr>
         | _ \<Rightarrow> (BHEash_New P noverify)\<lparr>e_type := BHEashT, e_threads := - 1\<rparr>))"

subsection \<open>\<^verbatim>\<open>New\<close> (lines 87-207)\<close>

datatype genesis_err =
    NoGenesisError
  | ConfigCompatError "64 word"
  | OtherGenesisError string

text \<open>
  What the context and the constructors called by \<^verbatim>\<open>New\<close> return: each is outside the
  file, so each is a parameter of the construction.
\<close>

record new_env =
  r_OpenDatabaseWithFreezer :: "string + database"
  r_SetupGenesisBlock :: "chain_config \<times> 256 word \<times> genesis_err"
  r_NewBlockChain :: "string option"
  r_ResolvePath :: "string \<Rightarrow> string"
  r_NewTxPool :: tx_pool
  r_NewProtocolManager :: "string + protocol_manager"
  r_Miner_New :: miner
  r_setupDiscovery :: "string option"
  ctx_AccountManager :: account_manager

text \<open>
  What a call of \<^verbatim>\<open>New\<close> leaves behind: the pair it returns, the caller's \<^verbatim>\<open>*Config\<close>
  (which \<^verbatim>\<open>New\<close> writes through), the store once it is open, and the calls made.
\<close>

record construction =
  c_result :: "error + service"
  c_config :: config
  c_chainDb :: "database option"
  c_calls :: "call list"

text \<open>Lines 89-94.\<close>

definition New_checkSyncMode :: "pkg \<Rightarrow> config \<Rightarrow> error option" where
  "New_checkSyncMode P config =
     (if SyncMode config = LightSync P then Some ErrLightSync
      else if \<not> IsValid P (SyncMode config) then Some (ErrInvalidSyncMode (SyncMode config))
      else None)"

text \<open>Lines 95-98.\<close>

definition New_sanitizeGasPrice :: "pkg \<Rightarrow> config \<Rightarrow> config" where
  "New_sanitizeGasPrice P config =
     (case Miner_GasPrice config of
        None \<Rightarrow> config\<lparr>Miner_GasPrice := Some (DefaultConfig_Miner_GasPrice P)\<rparr>
      | Some p \<Rightarrow>
          (if p \<le> 0 then config\<lparr>Miner_GasPrice := Some (DefaultConfig_Miner_GasPrice P)\<rparr>
           else config))"

text \<open>Lines 99-107.\<close>

definition New_redistributeCaches :: "config \<Rightarrow> config" where
  "New_redistributeCaches config =
     (if NoPruning config \<and> TrieDirtyCache config > 0 then
        (let config1 =
           (if SnapshotCache config > 0 then
              config\<lparr>TrieCleanCache :=
                       goInt (TrieCleanCache config + goInt (TrieDirtyCache config * 3) sdiv 5),
                     SnapshotCache :=
                       goInt (SnapshotCache config + goInt (TrieDirtyCache config * 2) sdiv 5)\<rparr>
            else config\<lparr>TrieCleanCache := goInt (TrieCleanCache config + TrieDirtyCache config)\<rparr>)
         in config1\<lparr>TrieDirtyCache := 0\<rparr>)
      else config)"

text \<open>
  Modelled from the spec: \<^verbatim>\<open>rawdb.WriteDatabaseVersion\<close> is not in the file; the store
  offers "version read/write markers", so the write sets the marker and nothing else.
\<close>

definition rawdb_WriteDatabaseVersion :: "database \<Rightarrow> 64 word \<Rightarrow> database" where
  "rawdb_WriteDatabaseVersion db v = db\<lparr>db_version := Some v\<rparr>"

text \<open>
  Lines 135-149: the store after the check and the calls made on it, or the error.
  Versions are \<^verbatim>\<open>uint64\<close>, compared unsigned.
\<close>

definition New_checkBcVersion :: "pkg \<Rightarrow> config \<Rightarrow> database \<Rightarrow> error + database \<times> call list" where
  "New_checkBcVersion P config db =
     (let bcVersion = db_version db in
      if \<not> SkipBcVersionCheck config then
        (case bcVersion of
           Some v \<Rightarrow>
             (if v > BlockChainVersion P then Inl (ErrDatabaseVersion v (BlockChainVersion P))
              else if v < BlockChainVersion P then
                Inr (rawdb_WriteDatabaseVersion db (BlockChainVersion P),
                     [ReadDatabaseVersion, WriteDatabaseVersion (BlockChainVersion P)])
              else Inr (db, [ReadDatabaseVersion]))
         | None \<Rightarrow>
             Inr (rawdb_WriteDatabaseVersion db (BlockChainVersion P),
                  [ReadDatabaseVersion, WriteDatabaseVersion (BlockChainVersion P)]))
      else Inr (db, [ReadDatabaseVersion]))"

text \<open>
  Lines 150-207: chain, rewind, bloom indexer, pool, protocol manager, miner, API backend,
  discovery. \<open>cs\<close> are the calls made before.
\<close>

definition New_assemble ::
  "pkg \<Rightarrow> new_env \<Rightarrow> config \<Rightarrow> database \<Rightarrow> engine \<Rightarrow> 256 word \<Rightarrow> genesis_err \<Rightarrow> call list
     \<Rightarrow> construction" where
  "New_assemble P E config db eng genesisHash genesisErr cs =
     (let cs1 = cs @ [NewBlockChain] in
      case r_NewBlockChain E of
        Some err \<Rightarrow>
          \<lparr>c_result = Inl (ErrNewBlockChain err), c_config = config,
           c_chainDb = Some db, c_calls = cs1\<rparr>
      | None \<Rightarrow>
          (let (db1, cs2) =
                 (case genesisErr of
                    ConfigCompatError rewindTo \<Rightarrow>
                      (db\<lparr>db_data := db_data db @ [WriteChainConfigW genesisHash]\<rparr>,
                       cs1 @ [SBHEead rewindTo, WriteChainConfig])
                  | _ \<Rightarrow> (db, cs1));
               cs3 = cs2 @ [BloomIndexer_Start];
               (config1, cs4) =
                 (if TxPool_Journal config \<noteq> []
                  then (config\<lparr>TxPool_Journal := r_ResolvePath E (TxPool_Journal config)\<rparr>,
                        cs3 @ [ResolvePath (TxPool_Journal config)])
                  else (config, cs3));
               cs5 = cs4 @ [NewTxPool];
               cacheLimit = goInt (goInt (TrieCleanCache config1 + TrieDirtyCache config1)
                                   + SnapshotCache config1);
               checkpoint = (case Checkpoint config1 of
                               None \<Rightarrow> TrustedCheckpoints P genesisHash
                             | Some c \<Rightarrow> Some c);
               cs6 = cs5 @ [NewProtocolManager checkpoint cacheLimit]
           in
           case r_NewProtocolManager E of
             Inl err \<Rightarrow>
               \<lparr>c_result = Inl (ErrNewProtocolManager err), c_config = config1,
                c_chainDb = Some db1, c_calls = cs6\<rparr>
           | Inr pm \<Rightarrow>
               (let gpoDefault = (case GPO_Default config1 of
                                    None \<Rightarrow> Miner_GasPrice config1
                                  | Some d \<Rightarrow> Some d);
                    cs7 = cs6 @ [Miner_New, Miner_SetExtra, NewOracle gpoDefault, SetupDiscovery]
                in
                case r_setupDiscovery E of
                  Some err \<Rightarrow>
                    \<lparr>c_result = Inl (ErrSetupDiscovery err), c_config = config1,
                     c_chainDb = Some db1, c_calls = cs7\<rparr>
                | None \<Rightarrow>
                    \<lparr>c_result = Inr
                       \<lparr>s_config = config1, txPool = r_NewTxPool E, protocolManager = pm,
                        lesServer = None, chainDb = db1, s_engine = eng,
                        accountManager = ctx_AccountManager E,
                        closeBloomHandler_closed = False, s_miner = r_Miner_New E,
                        gasPrice = Miner_GasPrice config,
                        s_BHEerbase = Miner_BHEerbase config,
                        networkID = NetworkId config, calls = cs7\<rparr>,
                     c_config = config1, c_chainDb = Some db1, c_calls = cs7\<rparr>)))"

definition New :: "pkg \<Rightarrow> new_env \<Rightarrow> config \<Rightarrow> construction" where
  "New P E config0 =
     (case New_checkSyncMode P config0 of
        Some err \<Rightarrow>
          \<lparr>c_result = Inl err, c_config = config0, c_chainDb = None, c_calls = []\<rparr>
      | None \<Rightarrow>
          (let config = New_redistributeCaches (New_sanitizeGasPrice P config0) in
           case r_OpenDatabaseWithFreezer E of
             Inl err \<Rightarrow>
               \<lparr>c_result = Inl (ErrOpenDatabase err), c_config = config,
                c_chainDb = None, c_calls = [OpenDatabaseWithFreezer]\<rparr>
           | Inr db \<Rightarrow>
               (case r_SetupGenesisBlock E of
                  (chainConfig, genesisHash, genesisErr) \<Rightarrow>
                    (case genesisErr of
                       OtherGenesisError err \<Rightarrow>
                         \<lparr>c_result = Inl (ErrGenesis err), c_config = config,
                          c_chainDb = Some db,
                          c_calls = [OpenDatabaseWithFreezer, SetupGenesisBlock]\<rparr>
                     | _ \<Rightarrow>
                         (let eng = CreateConsensusEngine P chainConfig (PowMode config)
                                      (Miner_Noverify config);
                              cs = [OpenDatabaseWithFreezer, SetupGenesisBlock, CreateEngine,
                                    NewBloomIndexer]
                          in
                          case New_checkBcVersion P config db of
                            Inl err \<Rightarrow>
                              \<lparr>c_result = Inl err, c_config = config,
                               c_chainDb = Some db,
                               c_calls = cs @ [ReadDatabaseVersion]\<rparr>
                          | Inr (db1, vs) \<Rightarrow>
                              New_assemble P E config db1 eng genesisHash genesisErr
                                (cs @ vs))))))"

subsection \<open>Concrete inputs\<close>

text \<open>
  Small concrete values on which the theorems below are run: an engine of either type whose
  author is the header's coinbase, a configuration with light serving on and 50 light
  peers, a service that is mining, and the results of the calls \<^verbatim>\<open>New\<close> makes.
\<close>

definition exAPI :: "string \<Rightarrow> api" where
  "exAPI n = \<lparr>Namespace = n, Version = ''1.0'', Service = ExternalService n, Public = True\<rparr>"

definition exEngine :: "engine_type \<Rightarrow> engine" where
  "exEngine ty =
     \<lparr>e_type = ty, e_threaded = (ty = BHEashT), e_threads = 4, e_signer = None,
      e_Author = (\<lambda>h. Inr (Coinbase h)), e_APIs = [exAPI ''engine'']\<rparr>"

definition exConfig :: config where
  "exConfig =
     \<lparr>SyncMode = 0, Miner_GasPrice = Some 0, Miner_BHEerbase = 0, Miner_Noverify = False,
      NoPruning = True, TrieCleanCache = 256, TrieDirtyCache = 256, SnapshotCache = 256,
      SkipBcVersionCheck = False, NetworkId = 1, PowMode = ModeNormal,
      TxPool_Journal = ''transactions.rlp'', TxPool_Locals = [7],
      Checkpoint = None, GPO_Default = None, LightServ = 1, LightPeers = 50\<rparr>"

definition exPlain :: config where
  "exPlain = exConfig\<lparr>SnapshotCache := 0\<rparr>"

definition exService :: "engine_type \<Rightarrow> service" where
  "exService ty =
     \<lparr>s_config = exConfig, txPool = \<lparr>tp_gasPrice = Some 1\<rparr>,
      protocolManager = \<lparr>acceptTxs = 0\<rparr>, lesServer = None,
      chainDb = \<lparr>db_version = Some 7, db_data = []\<rparr>, s_engine = exEngine ty,
      accountManager = \<lparr>am_Wallets = [\<lparr>w_URL = ''keystore'', w_Accounts = [0]\<rparr>],
                         am_Find = (\<lambda>a. (None, Some ''unknown account''))\<rparr>,
      closeBloomHandler_closed = False, s_miner = \<lparr>m_mining = True, m_launched = [5]\<rparr>,
      gasPrice = Some 1000000000, s_BHEerbase = 5, networkID = 1, calls = []\<rparr>"

text \<open>A service with no mining address set, whose first wallet's first account is \<open>a\<close>.\<close>

definition exUnset :: "address \<Rightarrow> service" where
  "exUnset a =
     (exService BHEashT)
       \<lparr>s_BHEerbase := 0,
        accountManager := \<lparr>am_Wallets = [\<lparr>w_URL = ''keystore'', w_Accounts = [a]\<rparr>],
                           am_Find = (\<lambda>a. (None, Some ''unknown account''))\<rparr>\<rparr>"

definition exBlock :: "address \<Rightarrow> block" where
  "exBlock a = \<lparr>Header = \<lparr>Number = 1, Coinbase = a, Extra = []\<rparr>\<rparr>"

definition exLes :: les_server where
  "exLes = \<lparr>ls_APIs = [exAPI ''les'']\<rparr>"

definition exPkg :: pkg where
  "exPkg =
     \<lparr>LightSync = 2, IsValid = (\<lambda>m. m \<le> 2), DefaultConfig_Miner_GasPrice = 1000000000,
      BlockChainVersion = 9, BloomBitsBlocks = 4096, TrustedCheckpoints = (\<lambda>h. None),
      clique_New = exEngine CliqueT, BHEash_NewFaker = exEngine BHEashT,
      BHEash_NewTester = (\<lambda>noverify. exEngine BHEashT), BHEash_NewShared = exEngine BHEashT,
      BHEash_New = (\<lambda>noverify. exEngine BHEashT), GetAPIs = [exAPI ''BHE'']\<rparr>"


definition exClose :: close_results where
  "exClose = \<lparr>r_bloomIndexer_Close = Some ''indexer failed'', r_engine_Close = None,
              r_chainDb_Close = Some ''leveldb: closed''\<rparr>"

text \<open>Every call of \<^verbatim>\<open>New\<close> succeeds; the store holds schema version \<open>v\<close>.\<close>

definition exEnv :: "64 word option \<Rightarrow> new_env" where
  "exEnv v =
     \<lparr>r_OpenDatabaseWithFreezer = Inr \<lparr>db_version = v, db_data = []\<rparr>,
      r_SetupGenesisBlock = (\<lparr>cc_Clique = False\<rparr>, 1, NoGenesisError),
      r_NewBlockChain = None, r_ResolvePath = (\<lambda>p. ''/data/'' @ p),
      r_NewTxPool = \<lparr>tp_gasPrice = Some 1\<rparr>,
      r_NewProtocolManager = Inr \<lparr>acceptTxs = 0\<rparr>,
      r_Miner_New = \<lparr>m_mining = False, m_launched = []\<rparr>,
      r_setupDiscovery = None,
      ctx_AccountManager = \<lparr>am_Wallets = [], am_Find = (\<lambda>a. (None, Some ''unknown account''))\<rparr>\<rparr>"

section \<open>Properties\<close>

subsection \<open>Reorg preservation\<close>

lemma isLocalAccount_set: "isLocalAccount accounts author = (author \<in> set accounts)"
  by (induction accounts) auto

lemma isLocalBlock_iff:
  "isLocalBlock s b =
     (\<exists>author. e_Author (s_engine s) (Header b) = Inr author \<and>
        (author = s_BHEerbase s \<or> author \<in> set (TxPool_Locals (s_config s))))"
  by (auto simp: isLocalBlock_def isLocalAccount_set split: sum.splits)

text \<open>
  Claim C1. For every block, \<open>shouldPreserve\<close> is false whenever the engine is the clique
  engine, whether or not the block is local; for every other engine it is the result of
  \<open>isLocalBlock\<close> on that block.
\<close>

theorem shouldPreserve_clique_or_local:
  "(e_type (s_engine s) = CliqueT \<longrightarrow> \<not> shouldPreserve s b) \<and>
   (e_type (s_engine s) \<noteq> CliqueT \<longrightarrow> shouldPreserve s b = isLocalBlock s b)"
  by (simp add: shouldPreserve_def)

text \<open>
  Under clique a block authored by the mining address is local and still not preserved;
  under the proof-of-work engine the blocks of the mining address (5) and of a configured
  local account (7) are preserved, a foreign block (9) is not.
\<close>

theorem shouldPreserve_clique_or_local_witness:
  "e_type (s_engine (exService CliqueT)) = CliqueT \<and>
   isLocalBlock (exService CliqueT) (exBlock 5) \<and>
   \<not> shouldPreserve (exService CliqueT) (exBlock 5) \<and>
   e_type (s_engine (exService BHEashT)) \<noteq> CliqueT \<and>
   shouldPreserve (exService BHEashT) (exBlock 5) \<and>
   shouldPreserve (exService BHEashT) (exBlock 7) \<and>
   \<not> shouldPreserve (exService BHEashT) (exBlock 9)"
  using shouldPreserve_clique_or_local [of "exService CliqueT" "exBlock 5"]
    shouldPreserve_clique_or_local [of "exService BHEashT" "exBlock 5"]
    shouldPreserve_clique_or_local [of "exService BHEashT" "exBlock 7"]
    shouldPreserve_clique_or_local [of "exService BHEashT" "exBlock 9"]
  by (simp add: isLocalBlock_def exService_def exEngine_def exBlock_def exConfig_def)

subsection \<open>The API list\<close>

lemma APIs_unfold:
  "APIs P s =
     (case lesServer s of
        None \<Rightarrow> GetAPIs P @ e_APIs (s_engine s) @ localAPIs
      | Some ls \<Rightarrow> GetAPIs P @ ls_APIs ls @ e_APIs (s_engine s) @ ls_APIs ls @ localAPIs)"
  by (simp add: APIs_def appendLesAPIs_def split: option.split)

lemma count_list_app: "count_list (xs @ ys) a = count_list xs a + count_list ys a"
  by (induction xs) auto

text \<open>
  Claim C10. With a light server attached, \<open>APIs\<close> appends the light server's list twice,
  once before and once after the engine's list, so each of its entries occurs twice as
  often as in the light server's list, on top of its occurrences elsewhere; with no light
  server attached the result is the base list, the engine's list and the local list.
\<close>

theorem APIs_les_twice:
  "(\<forall>ls. lesServer s = Some ls \<longrightarrow>
      APIs P s = GetAPIs P @ ls_APIs ls @ e_APIs (s_engine s) @ ls_APIs ls @ localAPIs \<and>
      (\<forall>a. count_list (APIs P s) a =
            count_list (GetAPIs P @ e_APIs (s_engine s) @ localAPIs) a
            + 2 * count_list (ls_APIs ls) a)) \<and>
   (lesServer s = None \<longrightarrow> APIs P s = GetAPIs P @ e_APIs (s_engine s) @ localAPIs)"
  by (simp add: APIs_unfold count_list_app)

text \<open>
  After \<open>AddLesServer\<close> the one API of the light server is in the list twice, and the list
  has 13 entries; without it the API is absent and the list has 11.
\<close>

theorem APIs_les_twice_witness:
  "lesServer (AddLesServer (exService BHEashT) exLes) = Some exLes \<and>
   count_list (APIs exPkg (AddLesServer (exService BHEashT) exLes)) (exAPI ''les'') = 2 \<and>
   length (APIs exPkg (AddLesServer (exService BHEashT) exLes)) = 13 \<and>
   lesServer (exService BHEashT) = None \<and>
   count_list (APIs exPkg (exService BHEashT)) (exAPI ''les'') = 0 \<and>
   length (APIs exPkg (exService BHEashT)) = 11"
  using APIs_les_twice [of "AddLesServer (exService BHEashT) exLes" exPkg]
    APIs_les_twice [of "exService BHEashT" exPkg]
  by (simp add: AddLesServer_def exService_def exLes_def exPkg_def exEngine_def exAPI_def
      localAPIs_def)

subsection \<open>Mining control\<close>

text \<open>
  Claim C6. When \<open>StartMining\<close> is called while mining is running, it returns no error and
  the service differs from the one before at most in the engine's thread count (0 mapped
  to -1, and only for an engine with \<^verbatim>\<open>SetThreads\<close>): no mining loop is launched, and the
  pool's minimum gas price, the mining address, the engine's signer and the
  accept-transactions flag are unchanged; no collaborator is called.
\<close>

theorem StartMining_already_running:
  assumes "IsMining s"
  shows "StartMining s threads =
           (None,
            if e_threaded (s_engine s)
            then s\<lparr>s_engine := (s_engine s)\<lparr>e_threads := (if threads = 0 then - 1 else threads)\<rparr>\<rparr>
            else s) \<and>
         m_launched (s_miner (snd (StartMining s threads))) = m_launched (s_miner s) \<and>
         tp_gasPrice (txPool (snd (StartMining s threads))) = tp_gasPrice (txPool s) \<and>
         s_BHEerbase (snd (StartMining s threads)) = s_BHEerbase s \<and>
         e_signer (s_engine (snd (StartMining s threads))) = e_signer (s_engine s) \<and>
         acceptTxs (protocolManager (snd (StartMining s threads))) = acceptTxs (protocolManager s) \<and>
         calls (snd (StartMining s threads)) = calls s"
proof -
  have m: "IsMining (setEngineThreads s threads)"
    using assms by (simp add: IsMining_def setEngineThreads_def)
  have eq: "StartMining s threads = (None, setEngineThreads s threads)"
    using m by (simp add: StartMining_def)
  show ?thesis
    unfolding eq by (simp add: setEngineThreads_def)
qed

theorem StartMining_already_running_witness:
  "IsMining (exService BHEashT) \<and>
   StartMining (exService BHEashT) 0 =
     (None, (exService BHEashT)\<lparr>s_engine := (exEngine BHEashT)\<lparr>e_threads := - 1\<rparr>\<rparr>) \<and>
   m_launched (s_miner (snd (StartMining (exService BHEashT) 0))) = [5] \<and>
   IsMining (exService CliqueT) \<and>
   StartMining (exService CliqueT) 2 = (None, exService CliqueT)"
  using StartMining_already_running [of "exService BHEashT" 0]
    StartMining_already_running [of "exService CliqueT" 2]
  by (simp add: IsMining_def exService_def exEngine_def)

subsection \<open>The mining address\<close>

text \<open>
  Claim C7, as stated, at a service with no address set whose first account is the zero
  address: the first call succeeds with the zero address after consulting the account
  manager, and the second call consults the account manager again, since the zero
  address is also the value of an unset field.
\<close>

theorem BHEerbase_zero_account_counterexample:
  "fst (BHEerbase (exUnset 0)) = Inr 0 \<and>
   fst (BHEerbase (snd (BHEerbase (exUnset 0)))) = Inr 0 \<and>
   calls (snd (BHEerbase (exUnset 0))) = [AccountManager_Wallets, Wallet_Accounts] \<and>
   calls (snd (BHEerbase (snd (BHEerbase (exUnset 0))))) =
     [AccountManager_Wallets, Wallet_Accounts, AccountManager_Wallets, Wallet_Accounts]"
  by (simp add: BHEerbase_def exUnset_def exService_def)

text \<open>
  Claim C7, amended. After a first successful call that returned a non-zero address,
  explicit or resolved from the first account of the first wallet and cached, a second
  call returns the same address and leaves the service as it is: in particular the trace
  gains no account-manager call.
\<close>

theorem BHEerbase_second_call:
  assumes "BHEerbase s = (Inr a, s1)" and "a \<noteq> 0"
  shows "BHEerbase s1 = (Inr a, s1) \<and> calls (snd (BHEerbase s1)) = calls s1"
proof -
  have "s_BHEerbase s1 = a"
    using assms
    by (auto simp: BHEerbase_def Let_def split: if_splits list.splits)
  then show ?thesis using assms(2) by (simp add: BHEerbase_def)
qed

text \<open>
  An address resolved from the account manager (9) is cached by the first call and
  returned by the second with no further lookup; an explicit address (5) needs none.
\<close>

theorem BHEerbase_second_call_witness:
  "BHEerbase (exUnset 9) =
     (Inr 9, (exUnset 9)\<lparr>calls := [AccountManager_Wallets, Wallet_Accounts], s_BHEerbase := 9\<rparr>) \<and>
   (9 :: address) \<noteq> 0 \<and>
   BHEerbase ((exUnset 9)\<lparr>calls := [AccountManager_Wallets, Wallet_Accounts], s_BHEerbase := 9\<rparr>) =
     (Inr 9, (exUnset 9)\<lparr>calls := [AccountManager_Wallets, Wallet_Accounts], s_BHEerbase := 9\<rparr>) \<and>
   BHEerbase (exService BHEashT) = (Inr 5, exService BHEashT) \<and>
   (5 :: address) \<noteq> 0 \<and>
   calls (snd (BHEerbase (exService BHEashT))) = []"
proof -
  have first: "BHEerbase (exUnset 9) =
     (Inr 9, (exUnset 9)\<lparr>calls := [AccountManager_Wallets, Wallet_Accounts], s_BHEerbase := 9\<rparr>)"
    by (simp add: BHEerbase_def exUnset_def exService_def)
  have nz: "(9 :: address) \<noteq> 0" by simp
  have explicit: "BHEerbase (exService BHEashT) = (Inr 5, exService BHEashT)"
    by (simp add: BHEerbase_def exService_def)
  have nz5: "(5 :: address) \<noteq> 0" by simp
  have "calls (exService BHEashT) = []" by (simp add: exService_def)
  then show ?thesis
    using first nz explicit nz5 BHEerbase_second_call [OF first nz]
      BHEerbase_second_call [OF explicit nz5]
    by simp
qed

subsection \<open>Shutdown\<close>

lemma Stop_open:
  assumes "\<not> closeBloomHandler_closed s"
  shows "fst (Stop R s) = Returned None"
    and "calls (snd (Stop R s)) =
           calls s @ [ProtocolManager_Stop] @
           (if lesServer s \<noteq> None then [LesServer_Stop] else []) @
           [BloomIndexer_Close (r_bloomIndexer_Close R), Close_closeBloomHandler, TxPool_Stop,
            Miner_Stop, BlockChain_Stop, Engine_Close (r_engine_Close R),
            ChainDb_Close (r_chainDb_Close R), EventMux_Stop]"
    and "closeBloomHandler_closed (snd (Stop R s))"
    and "lesServer (snd (Stop R s)) = lesServer s"
  using assms by (simp_all add: Stop_def Let_def)

lemma Stop_closed:
  assumes "closeBloomHandler_closed s"
  shows "fst (Stop R s) = Panicked CloseOfClosedChannel"
    and "calls (snd (Stop R s)) =
           calls s @ [ProtocolManager_Stop] @
           (if lesServer s \<noteq> None then [LesServer_Stop] else []) @
           [BloomIndexer_Close (r_bloomIndexer_Close R)]"
  using assms by (simp_all add: Stop_def Let_def)

text \<open>
  Claim C2, as stated, at a freshly built service: the first \<open>Stop\<close> returns nil, the
  second panics on closing the closed channel \<^verbatim>\<open>closeBloomHandler\<close>, having only stopped
  the protocol manager and closed the bloom indexer again.
\<close>

theorem Stop_twice_counterexample:
  "fst (Stop exClose (exService BHEashT)) = Returned None \<and>
   fst (Stop exClose (snd (Stop exClose (exService BHEashT)))) = Panicked CloseOfClosedChannel \<and>
   calls (snd (Stop exClose (snd (Stop exClose (exService BHEashT))))) =
     calls (snd (Stop exClose (exService BHEashT))) @
     [ProtocolManager_Stop, BloomIndexer_Close (Some ''indexer failed'')]"
  by (simp add: Stop_def Let_def exClose_def exService_def)

text \<open>
  Claim C2, amended. On a service whose channel \<^verbatim>\<open>closeBloomHandler\<close> is still open, \<open>Stop\<close>
  makes every teardown call, in order, whatever the closing calls return, and returns
  nil. It is not idempotent: a second call panics at \<^verbatim>\<open>close(s.closeBloomHandler)\<close> after
  stopping the protocol manager (and the light server) and closing the bloom indexer
  once more, and makes none of the later teardown calls.
\<close>

theorem Stop_once_then_panics:
  assumes "\<not> closeBloomHandler_closed s"
  shows "fst (Stop R s) = Returned None \<and>
         calls (snd (Stop R s)) =
           calls s @ [ProtocolManager_Stop] @
           (if lesServer s \<noteq> None then [LesServer_Stop] else []) @
           [BloomIndexer_Close (r_bloomIndexer_Close R), Close_closeBloomHandler, TxPool_Stop,
            Miner_Stop, BlockChain_Stop, Engine_Close (r_engine_Close R),
            ChainDb_Close (r_chainDb_Close R), EventMux_Stop] \<and>
         fst (Stop R' (snd (Stop R s))) = Panicked CloseOfClosedChannel \<and>
         calls (snd (Stop R' (snd (Stop R s)))) =
           calls (snd (Stop R s)) @ [ProtocolManager_Stop] @
           (if lesServer s \<noteq> None then [LesServer_Stop] else []) @
           [BloomIndexer_Close (r_bloomIndexer_Close R')]"
  using Stop_open [OF assms, of R] Stop_closed [of "snd (Stop R s)" R'] by simp

theorem Stop_once_then_panics_witness:
  "\<not> closeBloomHandler_closed (exService BHEashT) \<and>
   fst (Stop exClose (exService BHEashT)) = Returned None \<and>
   calls (snd (Stop exClose (exService BHEashT))) =
     [ProtocolManager_Stop, BloomIndexer_Close (Some ''indexer failed''),
      Close_closeBloomHandler, TxPool_Stop, Miner_Stop, BlockChain_Stop, Engine_Close None,
      ChainDb_Close (Some ''leveldb: closed''), EventMux_Stop] \<and>
   fst (Stop exClose (snd (Stop exClose (exService BHEashT)))) = Panicked CloseOfClosedChannel"
proof -
  have h: "\<not> closeBloomHandler_closed (exService BHEashT)"
    by (simp add: exService_def)
  show ?thesis
    using h Stop_once_then_panics [OF h, of exClose exClose]
    by (simp add: exClose_def exService_def)
qed

subsection \<open>Startup\<close>

text \<open>
  Claim C3, as stated, with 50 light peers against a budget of 25. With light serving on,
  \<open>Start\<close> returns the configuration error, but the bloom-retrieval workers are started
  by then; with light serving off (\<^verbatim>\<open>LightServ\<close> 0) the two counts are not compared,
  \<open>Start\<close> returns nil and the protocol manager is started with all 25 peers.
\<close>

theorem Start_light_peers_counterexample:
  "LightPeers (s_config (exService BHEashT)) = 50 \<and>
   fst (Start exPkg (exService BHEashT) \<lparr>MaxPeers = 25\<rparr>) = Some (ErrInvalidPeerConfig 50 25) \<and>
   StartBloomHandlers 4096 \<in> set (calls (snd (Start exPkg (exService BHEashT) \<lparr>MaxPeers = 25\<rparr>))) \<and>
   LightPeers (s_config ((exService BHEashT)\<lparr>s_config := exConfig\<lparr>LightServ := 0\<rparr>\<rparr>)) = 50 \<and>
   fst (Start exPkg ((exService BHEashT)\<lparr>s_config := exConfig\<lparr>LightServ := 0\<rparr>\<rparr>) \<lparr>MaxPeers = 25\<rparr>)
     = None \<and>
   ProtocolManager_Start 25 \<in>
     set (calls (snd (Start exPkg ((exService BHEashT)\<lparr>s_config := exConfig\<lparr>LightServ := 0\<rparr>\<rparr>)
                       \<lparr>MaxPeers = 25\<rparr>)))"
  by (simp add: Start_def startNetworking_def Let_def exService_def exConfig_def exPkg_def)

text \<open>
  Claim C3, amended. When light serving is on (\<^verbatim>\<open>LightServ > 0\<close>) and the light-peer count
  is at least the server's peer budget, \<open>Start\<close> returns the configuration error and starts
  neither the protocol manager nor the light server; the calls that precede the check
  (the entry updater, the bloom-retrieval workers, the net API) have been made. When the
  count is below the budget the protocol manager is started with the difference, and
  when light serving is off it is started with the whole budget and no error is returned.
\<close>

theorem Start_light_peers_check:
  "(LightServ (s_config s) > 0 \<and> LightPeers (s_config s) \<ge> MaxPeers srvr \<longrightarrow>
      Start P s srvr =
        (Some (ErrInvalidPeerConfig (LightPeers (s_config s)) (MaxPeers srvr)),
         s\<lparr>calls := calls s @
              [StartBHEEntryUpdate, StartBloomHandlers (BloomBitsBlocks P), NewPublicNetAPI]\<rparr>)) \<and>
   (LightServ (s_config s) > 0 \<and> LightPeers (s_config s) < MaxPeers srvr \<longrightarrow>
      Start P s srvr =
        (None,
         s\<lparr>calls := calls s @
              [StartBHEEntryUpdate, StartBloomHandlers (BloomBitsBlocks P), NewPublicNetAPI,
               ProtocolManager_Start (goInt (MaxPeers srvr - LightPeers (s_config s)))] @
              (if lesServer s \<noteq> None then [LesServer_Start] else [])\<rparr>)) \<and>
   (\<not> LightServ (s_config s) > 0 \<longrightarrow>
      Start P s srvr =
        (None,
         s\<lparr>calls := calls s @
              [StartBHEEntryUpdate, StartBloomHandlers (BloomBitsBlocks P), NewPublicNetAPI,
               ProtocolManager_Start (MaxPeers srvr)] @
              (if lesServer s \<noteq> None then [LesServer_Start] else [])\<rparr>))"
  by (simp add: Start_def startNetworking_def Let_def)

theorem Start_light_peers_check_witness:
  "LightServ (s_config (exService BHEashT)) > 0 \<and>
   LightPeers (s_config (exService BHEashT)) \<ge> MaxPeers \<lparr>MaxPeers = 25\<rparr> \<and>
   fst (Start exPkg (exService BHEashT) \<lparr>MaxPeers = 25\<rparr>) = Some (ErrInvalidPeerConfig 50 25) \<and>
   calls (snd (Start exPkg (exService BHEashT) \<lparr>MaxPeers = 25\<rparr>)) =
     [StartBHEEntryUpdate, StartBloomHandlers 4096, NewPublicNetAPI] \<and>
   LightPeers (s_config (exService BHEashT)) < MaxPeers \<lparr>MaxPeers = 75\<rparr> \<and>
   Start exPkg (exService BHEashT) \<lparr>MaxPeers = 75\<rparr> =
     (None, (exService BHEashT)
        \<lparr>calls := [StartBHEEntryUpdate, StartBloomHandlers 4096, NewPublicNetAPI,
                   ProtocolManager_Start 25]\<rparr>) \<and>
   \<not> LightServ (s_config ((exService BHEashT)\<lparr>s_config := exConfig\<lparr>LightServ := 0\<rparr>\<rparr>)) > 0 \<and>
   fst (Start exPkg ((exService BHEashT)\<lparr>s_config := exConfig\<lparr>LightServ := 0\<rparr>\<rparr>) \<lparr>MaxPeers = 25\<rparr>)
     = None"
  using Start_light_peers_check [of "exService BHEashT" "\<lparr>MaxPeers = 25\<rparr>" exPkg]
    Start_light_peers_check [of "exService BHEashT" "\<lparr>MaxPeers = 75\<rparr>" exPkg]
    Start_light_peers_check [of "(exService BHEashT)\<lparr>s_config := exConfig\<lparr>LightServ := 0\<rparr>\<rparr>"
      "\<lparr>MaxPeers = 25\<rparr>" exPkg]
  by (simp add: exService_def exConfig_def exPkg_def goInt_def)

subsection \<open>Construction: what the later stages keep\<close>

text \<open>The last stage changes the configuration in the journal path only.\<close>

lemma New_assemble_config:
  "c_config (New_assemble P E config db eng h g cs) =
     (if r_NewBlockChain E = None \<and> TxPool_Journal config \<noteq> []
      then config\<lparr>TxPool_Journal := r_ResolvePath E (TxPool_Journal config)\<rparr> else config)"
  by (simp add: New_assemble_def Let_def split: option.split sum.split genesis_err.split prod.split)

lemma New_assemble_config_journal:
  "(c_config (New_assemble P E config db eng h g cs))\<lparr>TxPool_Journal := j\<rparr> =
     config\<lparr>TxPool_Journal := j\<rparr>"
  by (simp add: New_assemble_config)

lemma New_config_journal:
  assumes "New_checkSyncMode P c = None"
  shows "(c_config (New P E c))\<lparr>TxPool_Journal := j\<rparr> =
           (New_redistributeCaches (New_sanitizeGasPrice P c))\<lparr>TxPool_Journal := j\<rparr>"
  using assms
  by (simp add: New_def Let_def New_assemble_config_journal
      split: sum.split genesis_err.split prod.split)

lemma New_assemble_service:
  assumes "c_result (New_assemble P E config db eng h g cs) = Inr s"
  shows "gasPrice s = Miner_GasPrice config"
    and "s_config s = c_config (New_assemble P E config db eng h g cs)"
    and "s_engine s = eng"
    and "\<not> closeBloomHandler_closed s"
    and "lesServer s = None"
    and "s_BHEerbase s = Miner_BHEerbase config"
  using assms
  by (auto simp: New_assemble_def Let_def
      split: option.splits sum.splits genesis_err.splits prod.splits if_splits)




text \<open>\<^verbatim>\<open>New\<close> once the sync mode is accepted, the store is open and the genesis is set up.\<close>

lemma New_reached:
  assumes "New_checkSyncMode P c = None"
    and "r_OpenDatabaseWithFreezer E = Inr db"
    and "r_SetupGenesisBlock E = (cc, h, g)"
    and "\<forall>e. g \<noteq> OtherGenesisError e"
  shows "New P E c =
     (let config = New_redistributeCaches (New_sanitizeGasPrice P c);
          cs = [OpenDatabaseWithFreezer, SetupGenesisBlock, CreateEngine, NewBloomIndexer]
      in case New_checkBcVersion P config db of
           Inl err \<Rightarrow>
             \<lparr>c_result = Inl err, c_config = config, c_chainDb = Some db,
              c_calls = cs @ [ReadDatabaseVersion]\<rparr>
         | Inr (db1, vs) \<Rightarrow>
             New_assemble P E config db1
               (CreateConsensusEngine P cc (PowMode config) (Miner_Noverify config)) h g
               (cs @ vs))"
  using assms by (cases g) (auto simp: New_def Let_def)

text \<open>A service is returned only past every check, and it carries the sanitized values.\<close>

lemma New_service:
  assumes "c_result (New P E c) = Inr s"
  shows "New_checkSyncMode P c = None"
    and "gasPrice s = Miner_GasPrice (New_sanitizeGasPrice P c)"
    and "s_config s = c_config (New P E c)"
proof -
  show sm: "New_checkSyncMode P c = None"
    using assms by (cases "New_checkSyncMode P c") (simp_all add: New_def)
  let ?c = "New_redistributeCaches (New_sanitizeGasPrice P c)"
  obtain db where db: "r_OpenDatabaseWithFreezer E = Inr db"
    using assms sm by (cases "r_OpenDatabaseWithFreezer E") (simp_all add: New_def Let_def)
  obtain cc h g where gen: "r_SetupGenesisBlock E = (cc, h, g)"
    by (cases "r_SetupGenesisBlock E") auto
  have g: "\<forall>e. g \<noteq> OtherGenesisError e"
    using assms sm db gen by (auto simp: New_def Let_def)
  note new = New_reached [OF sm db gen g]
  obtain db1 vs where ver: "New_checkBcVersion P ?c db = Inr (db1, vs)"
    using assms by (cases "New_checkBcVersion P ?c db") (auto simp: new Let_def)
  have eq: "New P E c =
      New_assemble P E ?c db1 (CreateConsensusEngine P cc (PowMode ?c) (Miner_Noverify ?c)) h g
        ([OpenDatabaseWithFreezer, SetupGenesisBlock, CreateEngine, NewBloomIndexer] @ vs)"
    by (simp add: new ver Let_def)
  show "gasPrice s = Miner_GasPrice (New_sanitizeGasPrice P c)"
    using New_assemble_service(1) [OF assms [unfolded eq]]
    by (simp add: New_redistributeCaches_def Let_def)
  show "s_config s = c_config (New P E c)"
    using New_assemble_service(2) [OF assms [unfolded eq]] by (simp add: eq)
qed

lemma New_sanitizeGasPrice_caches:
  "TrieCleanCache (New_sanitizeGasPrice P c) = TrieCleanCache c"
  "TrieDirtyCache (New_sanitizeGasPrice P c) = TrieDirtyCache c"
  "SnapshotCache (New_sanitizeGasPrice P c) = SnapshotCache c"
  "NoPruning (New_sanitizeGasPrice P c) = NoPruning c"
  by (simp_all add: New_sanitizeGasPrice_def split: option.split)


lemma New_config_fields:
  assumes "New_checkSyncMode P c = None"
  shows "Miner_GasPrice (c_config (New P E c)) = Miner_GasPrice (New_sanitizeGasPrice P c)"
    and "TrieCleanCache (c_config (New P E c)) =
           TrieCleanCache (New_redistributeCaches (New_sanitizeGasPrice P c))"
    and "TrieDirtyCache (c_config (New P E c)) =
           TrieDirtyCache (New_redistributeCaches (New_sanitizeGasPrice P c))"
    and "SnapshotCache (c_config (New P E c)) =
           SnapshotCache (New_redistributeCaches (New_sanitizeGasPrice P c))"
proof -
  let ?a = "(c_config (New P E c))\<lparr>TxPool_Journal := []\<rparr>"
  let ?b = "(New_redistributeCaches (New_sanitizeGasPrice P c))\<lparr>TxPool_Journal := []\<rparr>"
  have eq: "?a = ?b" by (rule New_config_journal [OF assms])
  have "Miner_GasPrice ?a = Miner_GasPrice ?b" by (simp only: eq)
  then show "Miner_GasPrice (c_config (New P E c)) = Miner_GasPrice (New_sanitizeGasPrice P c)"
    by (simp add: New_redistributeCaches_def Let_def)
  have "TrieCleanCache ?a = TrieCleanCache ?b" by (simp only: eq)
  then show "TrieCleanCache (c_config (New P E c)) =
           TrieCleanCache (New_redistributeCaches (New_sanitizeGasPrice P c))" by simp
  have "TrieDirtyCache ?a = TrieDirtyCache ?b" by (simp only: eq)
  then show "TrieDirtyCache (c_config (New P E c)) =
           TrieDirtyCache (New_redistributeCaches (New_sanitizeGasPrice P c))" by simp
  have "SnapshotCache ?a = SnapshotCache ?b" by (simp only: eq)
  then show "SnapshotCache (c_config (New P E c)) =
           SnapshotCache (New_redistributeCaches (New_sanitizeGasPrice P c))" by simp
qed

subsection \<open>Construction: the sync mode\<close>

text \<open>
  Claim C9. Construction fails when the configured sync mode is light sync, and when it
  is not a valid mode; in both cases it returns before any call is made: the store is not
  opened, no subsystem is built, and the configuration is left as it was.
\<close>

theorem New_rejects_sync_mode:
  "(SyncMode c = LightSync P \<longrightarrow> c_result (New P E c) = Inl ErrLightSync) \<and>
   (SyncMode c \<noteq> LightSync P \<and> \<not> IsValid P (SyncMode c) \<longrightarrow>
      c_result (New P E c) = Inl (ErrInvalidSyncMode (SyncMode c))) \<and>
   (SyncMode c = LightSync P \<or> \<not> IsValid P (SyncMode c) \<longrightarrow>
      c_calls (New P E c) = [] \<and> c_chainDb (New P E c) = None \<and> c_config (New P E c) = c)"
  by (simp add: New_def New_checkSyncMode_def)

theorem New_rejects_sync_mode_witness:
  "SyncMode (exConfig\<lparr>SyncMode := 2\<rparr>) = LightSync exPkg \<and>
   c_result (New exPkg (exEnv (Some 7)) (exConfig\<lparr>SyncMode := 2\<rparr>)) = Inl ErrLightSync \<and>
   c_calls (New exPkg (exEnv (Some 7)) (exConfig\<lparr>SyncMode := 2\<rparr>)) = [] \<and>
   SyncMode (exConfig\<lparr>SyncMode := 3\<rparr>) \<noteq> LightSync exPkg \<and>
   \<not> IsValid exPkg (SyncMode (exConfig\<lparr>SyncMode := 3\<rparr>)) \<and>
   c_result (New exPkg (exEnv (Some 7)) (exConfig\<lparr>SyncMode := 3\<rparr>)) = Inl (ErrInvalidSyncMode 3) \<and>
   c_calls (New exPkg (exEnv (Some 7)) (exConfig\<lparr>SyncMode := 3\<rparr>)) = []"
  using New_rejects_sync_mode [of "exConfig\<lparr>SyncMode := 2\<rparr>" exPkg "exEnv (Some 7)"]
    New_rejects_sync_mode [of "exConfig\<lparr>SyncMode := 3\<rparr>" exPkg "exEnv (Some 7)"]
  by (simp add: exConfig_def exPkg_def)

subsection \<open>Construction: the gas-price floor\<close>

text \<open>
  Claim C8. A configured gas-price floor that is not positive (or is nil) is replaced by
  \<^verbatim>\<open>DefaultConfig.Miner.GasPrice\<close>, a positive one is kept: this is the floor in the
  configuration once the sync mode is accepted, and the floor of every service that
  construction returns.
\<close>

theorem New_gas_price_floor:
  "(New_checkSyncMode P c = None \<longrightarrow>
      Miner_GasPrice (c_config (New P E c)) =
        Some (case Miner_GasPrice c of
                None \<Rightarrow> DefaultConfig_Miner_GasPrice P
              | Some p \<Rightarrow> if p \<le> 0 then DefaultConfig_Miner_GasPrice P else p)) \<and>
   (\<forall>s. c_result (New P E c) = Inr s \<longrightarrow>
      gasPrice s =
        Some (case Miner_GasPrice c of
                None \<Rightarrow> DefaultConfig_Miner_GasPrice P
              | Some p \<Rightarrow> if p \<le> 0 then DefaultConfig_Miner_GasPrice P else p) \<and>
      Miner_GasPrice (s_config s) = gasPrice s)"
proof -
  have san: "Miner_GasPrice (New_sanitizeGasPrice P c) =
      Some (case Miner_GasPrice c of
                None \<Rightarrow> DefaultConfig_Miner_GasPrice P
              | Some p \<Rightarrow> if p \<le> 0 then DefaultConfig_Miner_GasPrice P else p)"
    by (simp add: New_sanitizeGasPrice_def split: option.split)
  show ?thesis
    using New_config_fields(1) [of P c E] New_service [of P E c] san by auto
qed

theorem New_gas_price_floor_witness:
  "New_checkSyncMode exPkg exConfig = None \<and>
   Miner_GasPrice exConfig = Some 0 \<and>
   Miner_GasPrice (c_config (New exPkg (exEnv (Some 7)) exConfig)) = Some 1000000000 \<and>
   Miner_GasPrice (c_config (New exPkg (exEnv (Some 7)) (exConfig\<lparr>Miner_GasPrice := Some (- 5)\<rparr>)))
     = Some 1000000000 \<and>
   Miner_GasPrice (c_config (New exPkg (exEnv (Some 7)) (exConfig\<lparr>Miner_GasPrice := None\<rparr>)))
     = Some 1000000000 \<and>
   Miner_GasPrice (c_config (New exPkg (exEnv (Some 7)) (exConfig\<lparr>Miner_GasPrice := Some 3\<rparr>)))
     = Some 3"
proof -
  have a: "New_checkSyncMode exPkg (exConfig\<lparr>Miner_GasPrice := p\<rparr>) = None" for p
    by (simp add: New_checkSyncMode_def exPkg_def exConfig_def)
  have b: "New_checkSyncMode exPkg exConfig = None"
    by (simp add: New_checkSyncMode_def exPkg_def exConfig_def)
  show ?thesis
    using a b New_gas_price_floor [of exPkg exConfig "exEnv (Some 7)"]
      New_gas_price_floor [of exPkg "exConfig\<lparr>Miner_GasPrice := Some (- 5)\<rparr>" "exEnv (Some 7)"]
      New_gas_price_floor [of exPkg "exConfig\<lparr>Miner_GasPrice := None\<rparr>" "exEnv (Some 7)"]
      New_gas_price_floor [of exPkg "exConfig\<lparr>Miner_GasPrice := Some 3\<rparr>" "exEnv (Some 7)"]
    by (simp add: exConfig_def exPkg_def)
qed

subsection \<open>Construction: the cache budgets\<close>

lemma goInt_id: "isGoInt k \<Longrightarrow> goInt k = k"
  by (simp add: goInt_def isGoInt_def signed_take_bit_int_eq_self)

lemma sdiv_nonneg: "0 \<le> k \<Longrightarrow> 0 < l \<Longrightarrow> k sdiv l = k div (l :: int)"
  by (simp add: signed_divide_int_def sgn_if)

text \<open>
  Claim C4. With pruning disabled and a dirty-cache budget \<open>D > 0\<close>, construction (once
  the sync mode is accepted) leaves the dirty budget at 0 and, if the snapshot budget is
  positive, adds \<open>D * 3 / 5\<close> to the clean budget and \<open>D * 2 / 5\<close> to the snapshot budget,
  otherwise adds \<open>D\<close> to the clean budget and leaves the snapshot budget alone. The sums,
  products and quotients are Go's; whenever \<open>D * 3\<close> and the sums fit a Go \<^verbatim>\<open>int\<close> they are
  the integers \<open>3D/5\<close> and \<open>2D/5\<close> rounded down. A service that construction returns holds
  this configuration.
\<close>

theorem New_cache_redistribution:
  assumes "New_checkSyncMode P c = None" and "NoPruning c" and "TrieDirtyCache c > 0"
  shows "TrieDirtyCache (c_config (New P E c)) = 0 \<and>
         (SnapshotCache c > 0 \<longrightarrow>
            TrieCleanCache (c_config (New P E c)) =
              goInt (TrieCleanCache c + goInt (TrieDirtyCache c * 3) sdiv 5) \<and>
            SnapshotCache (c_config (New P E c)) =
              goInt (SnapshotCache c + goInt (TrieDirtyCache c * 2) sdiv 5)) \<and>
         (\<not> SnapshotCache c > 0 \<longrightarrow>
            TrieCleanCache (c_config (New P E c)) = goInt (TrieCleanCache c + TrieDirtyCache c) \<and>
            SnapshotCache (c_config (New P E c)) = SnapshotCache c) \<and>
         (SnapshotCache c > 0 \<and> isGoInt (TrieDirtyCache c * 3) \<and>
          isGoInt (TrieCleanCache c + TrieDirtyCache c * 3 div 5) \<and>
          isGoInt (SnapshotCache c + TrieDirtyCache c * 2 div 5) \<longrightarrow>
            TrieCleanCache (c_config (New P E c)) = TrieCleanCache c + TrieDirtyCache c * 3 div 5 \<and>
            SnapshotCache (c_config (New P E c)) = SnapshotCache c + TrieDirtyCache c * 2 div 5) \<and>
         (\<not> SnapshotCache c > 0 \<and> isGoInt (TrieCleanCache c + TrieDirtyCache c) \<longrightarrow>
            TrieCleanCache (c_config (New P E c)) = TrieCleanCache c + TrieDirtyCache c) \<and>
         (\<forall>s. c_result (New P E c) = Inr s \<longrightarrow> s_config s = c_config (New P E c))"
proof -
  have go: "TrieDirtyCache (c_config (New P E c)) = 0"
    "SnapshotCache c > 0 \<Longrightarrow>
       TrieCleanCache (c_config (New P E c)) =
         goInt (TrieCleanCache c + goInt (TrieDirtyCache c * 3) sdiv 5) \<and>
       SnapshotCache (c_config (New P E c)) =
         goInt (SnapshotCache c + goInt (TrieDirtyCache c * 2) sdiv 5)"
    "\<not> SnapshotCache c > 0 \<Longrightarrow>
       TrieCleanCache (c_config (New P E c)) = goInt (TrieCleanCache c + TrieDirtyCache c) \<and>
       SnapshotCache (c_config (New P E c)) = SnapshotCache c"
    using assms(2,3)
    by (simp_all add: New_config_fields [OF assms(1)] New_redistributeCaches_def
        New_sanitizeGasPrice_caches Let_def)
  have two: "isGoInt (TrieDirtyCache c * 2)" if "isGoInt (TrieDirtyCache c * 3)"
    using that assms(3) by (simp add: isGoInt_def)
  have m3: "goInt (TrieDirtyCache c * 3) sdiv 5 = TrieDirtyCache c * 3 div 5"
    if "isGoInt (TrieDirtyCache c * 3)"
    using that assms(3) by (simp add: goInt_id sdiv_nonneg)
  have m2: "goInt (TrieDirtyCache c * 2) sdiv 5 = TrieDirtyCache c * 2 div 5"
    if "isGoInt (TrieDirtyCache c * 3)"
    using two [OF that] assms(3) by (simp add: goInt_id sdiv_nonneg)
  have held: "\<forall>s. c_result (New P E c) = Inr s \<longrightarrow> s_config s = c_config (New P E c)"
    using New_service(3) [of P E c] by blast
  show ?thesis
    using go m3 m2 held by (auto simp: goInt_id)
qed

text \<open>
  With 256 in each budget: 256 * 3 / 5 = 153 and 256 * 2 / 5 = 102 with the snapshot
  budget on, all of 256 to the clean budget with it off.
\<close>

theorem New_cache_redistribution_witness:
  "New_checkSyncMode exPkg exConfig = None \<and> NoPruning exConfig \<and> TrieDirtyCache exConfig > 0 \<and>
   SnapshotCache exConfig > 0 \<and>
   TrieCleanCache (c_config (New exPkg (exEnv (Some 7)) exConfig)) = 409 \<and>
   SnapshotCache (c_config (New exPkg (exEnv (Some 7)) exConfig)) = 358 \<and>
   TrieDirtyCache (c_config (New exPkg (exEnv (Some 7)) exConfig)) = 0 \<and>
   New_checkSyncMode exPkg exPlain = None \<and> NoPruning exPlain \<and> TrieDirtyCache exPlain > 0 \<and>
   \<not> SnapshotCache exPlain > 0 \<and>
   TrieCleanCache (c_config (New exPkg (exEnv (Some 7)) exPlain)) = 512 \<and>
   SnapshotCache (c_config (New exPkg (exEnv (Some 7)) exPlain)) = 0 \<and>
   TrieDirtyCache (c_config (New exPkg (exEnv (Some 7)) exPlain)) = 0"
proof -
  have a: "New_checkSyncMode exPkg exConfig = None" "NoPruning exConfig" "TrieDirtyCache exConfig > 0"
    by (simp_all add: New_checkSyncMode_def exPkg_def exConfig_def)
  have b: "New_checkSyncMode exPkg exPlain = None" "NoPruning exPlain" "TrieDirtyCache exPlain > 0"
    by (simp_all add: New_checkSyncMode_def exPkg_def exConfig_def exPlain_def)
  show ?thesis
    using a b New_cache_redistribution [OF a, of "exEnv (Some 7)"]
      New_cache_redistribution [OF b, of "exEnv (Some 7)"]
    by (simp add: exConfig_def exPlain_def isGoInt_def)
qed

subsection \<open>Construction: the schema version\<close>



end
